theory Spec2Isabelle
  imports Main "HOL-Library.AList"
begin

section \<open>The package initialisation module of matgendb\<close>

text \<open>
  The file \<^verbatim>\<open>matgendb/__init__.py\<close> consists of five statements:
  \<^verbatim>\<open>
  """
  Pymatgen-db is a database add-on ... for analysis purposes.
  """

  __author__ = "Shyue Ping Ong, Dan Gunter"
  __date__ = "Oct 9 2014"
  __version__ = "0.4.3"

  from .query_engine import QueryEngine
  \<close>
  They are embedded as a list of statements, together with the part of the semantics of
  Python module execution that these statements exercise: binding a name in the module's
  namespace, and a relative \<^verbatim>\<open>from .M import N\<close>.
\<close>

subsection \<open>Values, namespaces and the interpreter state\<close>

text \<open>
  A value is a string constant, a module object (a reference, by its fully qualified name,
  into the table of loaded modules) or any other object, known by its identity only.
\<close>

datatype pyval = Str string | Module string | Obj nat

text \<open>
  A namespace is a Python dictionary from names to values: an association list in
  insertion order, read with \<^const>\<open>map_of\<close> and written with \<^const>\<open>AList.update\<close>
  (a key that is present keeps its place, a new key goes to the end, as in a \<^verbatim>\<open>dict\<close>).
\<close>

type_synonym namespace = "(string \<times> pyval) list"

text \<open>
  The exceptions an import can raise. \<^verbatim>\<open>ModuleNotFoundError\<close> (a subclass of
  \<^verbatim>\<open>ImportError\<close>) carries the qualified name that was not found; \<^verbatim>\<open>ImportError\<close> carries
  the name that could not be imported and the module it was asked from; \<open>SiblingRaised\<close>
  is an exception raised by the code of the imported module itself, passed on unchanged.
\<close>

datatype exc = ModuleNotFoundError string | ImportError string string | SiblingRaised string

text \<open>
  The sibling modules are not part of the material. What the import system finds for a
  qualified module name is therefore a parameter: nothing, a module whose code raises, or a
  module whose code ran to its end and left a namespace.
\<close>

datatype load_result = NotFound | Raises string | Loaded namespace

type_synonym environment = "string \<Rightarrow> load_result"

text \<open>
  The state of the interpreter as far as the module can touch it: the namespace of the module
  being initialised (its \<^verbatim>\<open>globals()\<close>) and the table of the other modules loaded so far
  (\<^verbatim>\<open>sys.modules\<close>), by qualified name.
\<close>

record interp =
  globals :: namespace
  sys_modules :: "(string \<times> namespace) list"

subsection \<open>Statements\<close>

datatype expr = Constant string

datatype stmt =
    Expr expr
  | Assign string expr
  | ImportFrom string "string list"

text \<open>
  \<open>ImportFrom M names\<close> is \<^verbatim>\<open>from .M import names\<close>, the relative import of level one,
  the only form the file uses.
\<close>

definition docstring :: string where
  "docstring =
     ''\<newline>Pymatgen-db is a database add-on for the Python Materials Genomics (pymatgen)\<newline>'' @
     ''materials analysis library. It enables the creation of Materials\<newline>'' @
     ''Project-style MongoDB databases for management of materials data and\<newline>'' @
     ''provides a clean and intuitive web ui for exploring that data. A query engine\<newline>'' @
     ''is also provided to enable the easy translation of MongoDB docs to useful\<newline>'' @
     ''pymatgen objects for analysis purposes.\<newline>''"

definition matgendb_init :: "stmt list" where
  "matgendb_init =
     [Expr (Constant docstring),
      Assign ''__author__'' (Constant ''Shyue Ping Ong, Dan Gunter''),
      Assign ''__date__'' (Constant ''Oct 9 2014''),
      Assign ''__version__'' (Constant ''0.4.3''),
      ImportFrom ''query_engine'' [''QueryEngine'']]"

definition package :: string where
  "package = ''matgendb''"

subsection \<open>Execution\<close>

fun eval_expr :: "expr \<Rightarrow> pyval" where
  "eval_expr (Constant s) = Str s"

definition store_name :: "string \<Rightarrow> pyval \<Rightarrow> interp \<Rightarrow> interp" where
  "store_name n v st = st\<lparr>globals := AList.update n v (globals st)\<rparr>"

definition qualname :: "string \<Rightarrow> string \<Rightarrow> string" where
  "qualname pkg m = pkg @ ''.'' @ m"

text \<open>
  Importing the submodule \<open>m\<close> of the package \<open>pkg\<close>. A module that is already in
  \<^verbatim>\<open>sys.modules\<close> is taken from there and nothing changes. Otherwise it is looked for and
  its code is run; when that succeeds the module is entered into \<^verbatim>\<open>sys.modules\<close> and, as the
  import system does for every submodule it loads by whatever mechanism, bound under its own
  name in the namespace of its parent package, here the module being initialised (so that
  \<^verbatim>\<open>matgendb.query_engine\<close> names the submodule once the package is imported). When the
  module is not found or its code raises, the state is as before.
\<close>

definition import_name ::
  "string \<Rightarrow> environment \<Rightarrow> string \<Rightarrow> interp \<Rightarrow> exc + (namespace \<times> interp)" where
  "import_name pkg env m st =
     (let qn = qualname pkg m in
      case map_of (sys_modules st) qn of
        Some ns \<Rightarrow> Inr (ns, st)
      | None \<Rightarrow>
          (case env qn of
             NotFound \<Rightarrow> Inl (ModuleNotFoundError qn)
           | Raises e \<Rightarrow> Inl (SiblingRaised e)
           | Loaded ns \<Rightarrow>
               Inr (ns, st\<lparr>globals := AList.update m (Module qn) (globals st),
                           sys_modules := AList.update qn ns (sys_modules st)\<rparr>)))"

text \<open>
  Fetching the listed names from the imported module, one after the other, each stored
  before the next is fetched. A name the module does not define raises \<^verbatim>\<open>ImportError\<close>;
  the names stored before it stay stored.
\<close>

fun import_from :: "string \<Rightarrow> namespace \<Rightarrow> string list \<Rightarrow> interp \<Rightarrow> exc option \<times> interp" where
  "import_from qn ns [] st = (None, st)"
| "import_from qn ns (n # names) st =
     (case map_of ns n of
        None \<Rightarrow> (Some (ImportError n qn), st)
      | Some v \<Rightarrow> import_from qn ns names (store_name n v st))"

fun exec_stmt :: "string \<Rightarrow> environment \<Rightarrow> stmt \<Rightarrow> interp \<Rightarrow> exc option \<times> interp" where
  "exec_stmt pkg env (Expr e) st = (None, st)"
| "exec_stmt pkg env (Assign n e) st = (None, store_name n (eval_expr e) st)"
| "exec_stmt pkg env (ImportFrom m names) st =
     (case import_name pkg env m st of
        Inl x \<Rightarrow> (Some x, st)
      | Inr (ns, st') \<Rightarrow> import_from (qualname pkg m) ns names st')"

text \<open>
  A statement list runs until the first exception; the bindings made before it remain.
\<close>

fun exec_stmts :: "string \<Rightarrow> environment \<Rightarrow> stmt list \<Rightarrow> interp \<Rightarrow> exc option \<times> interp" where
  "exec_stmts pkg env [] st = (None, st)"
| "exec_stmts pkg env (s # ss) st =
     (case exec_stmt pkg env s st of
        (None, st') \<Rightarrow> exec_stmts pkg env ss st'
      | (Some x, st') \<Rightarrow> (Some x, st'))"

text \<open>
  Running a module body: a string constant standing as the first statement is the module's
  docstring and is stored under \<^verbatim>\<open>__doc__\<close>; then the statements run in order.
\<close>

definition bind_docstring :: "stmt list \<Rightarrow> interp \<Rightarrow> interp" where
  "bind_docstring body st =
     (case body of
        Expr (Constant s) # _ \<Rightarrow> store_name ''__doc__'' (Str s) st
      | _ \<Rightarrow> st)"

definition exec_module :: "string \<Rightarrow> environment \<Rightarrow> stmt list \<Rightarrow> interp \<Rightarrow> exc option \<times> interp" where
  "exec_module pkg env body st = exec_stmts pkg env body (bind_docstring body st)"

definition import_package :: "environment \<Rightarrow> interp \<Rightarrow> exc option \<times> interp" where
  "import_package env st = exec_module package env matgendb_init st"

definition getattr :: "interp \<Rightarrow> string \<Rightarrow> pyval option" where
  "getattr st n = map_of (globals st) n"

text \<open>
  Attribute access on a loaded module, \<^verbatim>\<open>sys.modules[q].n\<close>.
\<close>

definition module_getattr :: "interp \<Rightarrow> string \<Rightarrow> string \<Rightarrow> pyval option" where
  "module_getattr st q n =
     (case map_of (sys_modules st) q of None \<Rightarrow> None | Some ns \<Rightarrow> map_of ns n)"

subsection \<open>The names a statement binds\<close>





subsection \<open>The star import\<close>

text \<open>
  \<^verbatim>\<open>from package import *\<close> takes the names listed by the module's \<^verbatim>\<open>__all__\<close> when the
  namespace has one, and otherwise every name of the namespace that does not begin with an
  underscore.
\<close>

fun leading_underscore :: "string \<Rightarrow> bool" where
  "leading_underscore [] = False"
| "leading_underscore (c # cs) = (c = CHR ''_'')"

definition public_names :: "namespace \<Rightarrow> string list" where
  "public_names ns = filter (\<lambda>n. \<not> leading_underscore n) (map fst ns)"



subsection \<open>Example environments\<close>

text \<open>
  A namespace as a package module has it before its code runs, holding names set by the
  import system; an interpreter that has loaded \<^verbatim>\<open>sys\<close> only; and three environments: one where
  the sibling module defines \<^verbatim>\<open>QueryEngine\<close>, one where no sibling module exists, and one where
  the sibling module runs to its end without defining \<^verbatim>\<open>QueryEngine\<close>.
\<close>

definition fresh_globals :: namespace where
  "fresh_globals = [(''__name__'', Str ''matgendb''), (''__package__'', Str ''matgendb'')]"

definition fresh_interp :: interp where
  "fresh_interp =
     \<lparr>globals = fresh_globals, sys_modules = [(''sys'', [(''__name__'', Str ''sys'')])]\<rparr>"

definition env_with_engine :: environment where
  "env_with_engine q =
     (if q = ''matgendb.query_engine'' then Loaded [(''QueryEngine'', Obj 1)] else NotFound)"

definition env_without_sibling :: environment where
  "env_without_sibling q = NotFound"


section \<open>What running the module gives\<close>

lemma qualname_query_engine: "qualname package ''query_engine'' = ''matgendb.query_engine''"
  by (simp add: qualname_def package_def)

lemma import_package_unfold:
  "import_package env st =
     (let st4 = store_name ''__version__'' (Str ''0.4.3'')
                 (store_name ''__date__'' (Str ''Oct 9 2014'')
                   (store_name ''__author__'' (Str ''Shyue Ping Ong, Dan Gunter'')
                     (store_name ''__doc__'' (Str docstring) st)))
      in case import_name package env ''query_engine'' st4 of
           Inl x \<Rightarrow> (Some x, st4)
         | Inr (ns, st') \<Rightarrow>
             (case map_of ns ''QueryEngine'' of
                None \<Rightarrow> (Some (ImportError ''QueryEngine'' ''matgendb.query_engine''), st')
              | Some v \<Rightarrow> (None, store_name ''QueryEngine'' v st')))"
  by (simp add: import_package_def exec_module_def matgendb_init_def bind_docstring_def
      qualname_query_engine split: sum.splits option.splits prod.splits)

text \<open>
  The three observations of a run, each as a function of what the sibling module is: whether
  an exception came out, the table of loaded modules, and the namespace of the package.
\<close>

lemma import_package_outcome:
  "fst (import_package env st) =
     (case map_of (sys_modules st) ''matgendb.query_engine'' of
        Some ns \<Rightarrow>
          (case map_of ns ''QueryEngine'' of
             None \<Rightarrow> Some (ImportError ''QueryEngine'' ''matgendb.query_engine'')
           | Some v \<Rightarrow> None)
      | None \<Rightarrow>
          (case env ''matgendb.query_engine'' of
             NotFound \<Rightarrow> Some (ModuleNotFoundError ''matgendb.query_engine'')
           | Raises e \<Rightarrow> Some (SiblingRaised e)
           | Loaded ns \<Rightarrow>
               (case map_of ns ''QueryEngine'' of
                  None \<Rightarrow> Some (ImportError ''QueryEngine'' ''matgendb.query_engine'')
                | Some v \<Rightarrow> None)))"
  by (simp add: import_package_unfold Let_def import_name_def store_name_def qualname_query_engine
      split: option.splits load_result.splits)

lemma import_package_sys_modules:
  "sys_modules (snd (import_package env st)) =
     (case map_of (sys_modules st) ''matgendb.query_engine'' of
        Some ns \<Rightarrow> sys_modules st
      | None \<Rightarrow>
          (case env ''matgendb.query_engine'' of
             Loaded ns \<Rightarrow> AList.update ''matgendb.query_engine'' ns (sys_modules st)
           | _ \<Rightarrow> sys_modules st))"
  by (simp add: import_package_unfold Let_def import_name_def store_name_def qualname_query_engine
      split: option.splits load_result.splits)

lemma import_package_globals:
  "globals (snd (import_package env st)) =
     (let g = AList.update ''__version__'' (Str ''0.4.3'')
                (AList.update ''__date__'' (Str ''Oct 9 2014'')
                  (AList.update ''__author__'' (Str ''Shyue Ping Ong, Dan Gunter'')
                    (AList.update ''__doc__'' (Str docstring) (globals st))))
      in case map_of (sys_modules st) ''matgendb.query_engine'' of
        Some ns \<Rightarrow>
          (case map_of ns ''QueryEngine'' of
             None \<Rightarrow> g
           | Some v \<Rightarrow> AList.update ''QueryEngine'' v g)
      | None \<Rightarrow>
          (case env ''matgendb.query_engine'' of
             NotFound \<Rightarrow> g
           | Raises e \<Rightarrow> g
           | Loaded ns \<Rightarrow>
               (case map_of ns ''QueryEngine'' of
                  None \<Rightarrow> AList.update ''query_engine'' (Module ''matgendb.query_engine'') g
                | Some v \<Rightarrow>
                    AList.update ''QueryEngine'' v
                      (AList.update ''query_engine'' (Module ''matgendb.query_engine'') g))))"
  by (simp add: import_package_unfold Let_def import_name_def store_name_def qualname_query_engine
      split: option.splits load_result.splits)

lemma getattr_update:
  "map_of (AList.update k v al) n = (if n = k then Some v else map_of al n)"
  by (simp add: update_conv')

lemma set_public_names_update:
  "set (public_names (AList.update k v al)) =
     (if leading_underscore k then set (public_names al) else insert k (set (public_names al)))"
  by (auto simp: public_names_def update_keys)






text \<open>The three example runs, evaluated.\<close>

lemma run_with_engine:
  "import_package env_with_engine fresh_interp =
     (None,
      \<lparr>globals =
         [(''__name__'', Str ''matgendb''), (''__package__'', Str ''matgendb''),
          (''__doc__'', Str docstring),
          (''__author__'', Str ''Shyue Ping Ong, Dan Gunter''),
          (''__date__'', Str ''Oct 9 2014''), (''__version__'', Str ''0.4.3''),
          (''query_engine'', Module ''matgendb.query_engine''),
          (''QueryEngine'', Obj 1)],
       sys_modules =
         [(''sys'', [(''__name__'', Str ''sys'')]),
          (''matgendb.query_engine'', [(''QueryEngine'', Obj 1)])]\<rparr>)"
  by (simp add: import_package_unfold Let_def import_name_def store_name_def
      qualname_query_engine env_with_engine_def fresh_interp_def fresh_globals_def)

lemma run_without_sibling:
  "import_package env_without_sibling fresh_interp =
     (Some (ModuleNotFoundError ''matgendb.query_engine''),
      \<lparr>globals =
         [(''__name__'', Str ''matgendb''), (''__package__'', Str ''matgendb''),
          (''__doc__'', Str docstring),
          (''__author__'', Str ''Shyue Ping Ong, Dan Gunter''),
          (''__date__'', Str ''Oct 9 2014''), (''__version__'', Str ''0.4.3'')],
       sys_modules = [(''sys'', [(''__name__'', Str ''sys'')])]\<rparr>)"
  by (simp add: import_package_unfold Let_def import_name_def store_name_def
      qualname_query_engine env_without_sibling_def fresh_interp_def fresh_globals_def)


section \<open>The metadata\<close>

text \<open>
  C1. After the module has been evaluated, \<^verbatim>\<open>__version__\<close> is bound to the string
  \<^verbatim>\<open>"0.4.3"\<close>. This holds for every environment and every starting state, whether the
  import at the end of the file succeeds or raises: the binding is made before it.
\<close>

theorem version_bound:
  "getattr (snd (import_package env st)) ''__version__'' = Some (Str ''0.4.3'')"
  by (simp add: getattr_def import_package_globals Let_def getattr_update
      split: option.splits load_result.splits)

text \<open>
  C7. After the module has been evaluated, \<^verbatim>\<open>__author__\<close> is bound to the string
  \<^verbatim>\<open>"Shyue Ping Ong, Dan Gunter"\<close> and \<^verbatim>\<open>__date__\<close> to the string \<^verbatim>\<open>"Oct 9 2014"\<close>.
\<close>

theorem author_date_bound:
  "getattr (snd (import_package env st)) ''__author__'' = Some (Str ''Shyue Ping Ong, Dan Gunter'') \<and>
   getattr (snd (import_package env st)) ''__date__'' = Some (Str ''Oct 9 2014'')"
  by (simp add: getattr_def import_package_globals Let_def getattr_update
      split: option.splits load_result.splits)

section \<open>The re-export\<close>

text \<open>
  C2. The package exposes the name \<^verbatim>\<open>QueryEngine\<close>, bound to the very object that the sibling
  module \<^verbatim>\<open>query_engine\<close> has under that name: whenever the import of the package succeeds,
  \<^verbatim>\<open>QueryEngine\<close> is bound in the package namespace, it is among its public names, and the
  package attribute equals the attribute of the loaded sibling module.
\<close>

theorem reexport_identity:
  "fst (import_package env st) = None \<Longrightarrow>
   getattr (snd (import_package env st)) ''QueryEngine'' \<noteq> None \<and>
   getattr (snd (import_package env st)) ''QueryEngine'' =
     module_getattr (snd (import_package env st)) (qualname package ''query_engine'') ''QueryEngine'' \<and>
   ''QueryEngine'' \<in> set (public_names (globals (snd (import_package env st))))"
  by (auto simp: getattr_def module_getattr_def qualname_query_engine import_package_outcome
      import_package_globals import_package_sys_modules Let_def getattr_update
      set_public_names_update
      split: option.splits load_result.splits)

theorem reexport_identity_witness:
  "fst (import_package env_with_engine fresh_interp) = None \<and>
   getattr (snd (import_package env_with_engine fresh_interp)) ''QueryEngine'' = Some (Obj 1) \<and>
   module_getattr (snd (import_package env_with_engine fresh_interp))
     (qualname package ''query_engine'') ''QueryEngine'' = Some (Obj 1) \<and>
   ''QueryEngine'' \<in> set (public_names (globals (snd (import_package env_with_engine fresh_interp))))"
proof -
  have ok: "fst (import_package env_with_engine fresh_interp) = None"
    by (simp add: run_with_engine)
  have v: "getattr (snd (import_package env_with_engine fresh_interp)) ''QueryEngine'' = Some (Obj 1)"
    by (simp add: run_with_engine getattr_def)
  from reexport_identity [OF ok] ok v show ?thesis
    by simp
qed

text \<open>
  C3, as the specification has it, says that the import succeeds in every environment, with
  no condition on the sibling module. It does not: where no module \<^verbatim>\<open>query_engine\<close> exists
  beside the package, the last statement raises \<^verbatim>\<open>ModuleNotFoundError\<close> and \<^verbatim>\<open>QueryEngine\<close>
  stays unbound.
\<close>

theorem import_without_sibling_raises:
  "fst (import_package env_without_sibling fresh_interp) =
     Some (ModuleNotFoundError ''matgendb.query_engine'') \<and>
   getattr (snd (import_package env_without_sibling fresh_interp)) ''QueryEngine'' = None"
  by (simp add: run_without_sibling getattr_def)

text \<open>
  C3, amended. In every environment where the sibling module \<^verbatim>\<open>query_engine\<close> is available,
  that is, already loaded or found and run without raising, and defines \<^verbatim>\<open>QueryEngine\<close>, the
  import of the package succeeds and yields an attribute named \<^verbatim>\<open>QueryEngine\<close>.
\<close>

theorem import_succeeds_with_sibling:
  "map_of (sys_modules st) (qualname package ''query_engine'') = Some ns \<or>
   map_of (sys_modules st) (qualname package ''query_engine'') = None \<and>
     env (qualname package ''query_engine'') = Loaded ns \<Longrightarrow>
   map_of ns ''QueryEngine'' = Some v \<Longrightarrow>
   fst (import_package env st) = None \<and>
   getattr (snd (import_package env st)) ''QueryEngine'' = Some v"
  by (auto simp: getattr_def qualname_query_engine import_package_outcome
      import_package_globals Let_def getattr_update)

theorem import_succeeds_with_sibling_witness:
  "map_of (sys_modules fresh_interp) (qualname package ''query_engine'') = None \<and>
   env_with_engine (qualname package ''query_engine'') = Loaded [(''QueryEngine'', Obj 1)] \<and>
   map_of [(''QueryEngine'', Obj 1)] ''QueryEngine'' = Some (Obj 1) \<and>
   fst (import_package env_with_engine fresh_interp) = None \<and>
   getattr (snd (import_package env_with_engine fresh_interp)) ''QueryEngine'' = Some (Obj 1)"
proof -
  have a: "map_of (sys_modules fresh_interp) (qualname package ''query_engine'') = None"
    by (simp add: fresh_interp_def qualname_query_engine)
  have b: "env_with_engine (qualname package ''query_engine'') = Loaded [(''QueryEngine'', Obj 1)]"
    by (simp add: env_with_engine_def qualname_query_engine)
  have c: "map_of [(''QueryEngine'', Obj 1)] ''QueryEngine'' = Some (Obj 1)"
    by simp
  from a b have d:
    "map_of (sys_modules fresh_interp) (qualname package ''query_engine'') =
       Some [(''QueryEngine'', Obj 1)] \<or>
     map_of (sys_modules fresh_interp) (qualname package ''query_engine'') = None \<and>
       env_with_engine (qualname package ''query_engine'') = Loaded [(''QueryEngine'', Obj 1)]"
    by simp
  from import_succeeds_with_sibling
      [where st = fresh_interp and env = env_with_engine and ns = "[(''QueryEngine'', Obj 1)]"
         and v = "Obj 1", OF d c] a b c
  show ?thesis
    by simp
qed




section \<open>Exceptions\<close>



section \<open>Frame and determinism\<close>






section \<open>The star import\<close>




end
